theory Spec2Isabelle
  imports Main "HOL-Library.Sublist" "HOL-Library.Word"
begin

section \<open>Python text operations used by the sources\<close>

text \<open>
  Python \<open>str\<close> values are modelled as \<open>string\<close>. The case conversions below are the
  ASCII part of \<open>str.lower\<close>, \<open>str.upper\<close>, \<open>str.capitalize\<close> and \<open>str.title\<close>;
  characters outside \<open>A-Z\<close> and \<open>a-z\<close> are left as they are.
\<close>

definition is_upper_char :: "char \<Rightarrow> bool" where
  "is_upper_char c = (65 \<le> (of_char c :: nat) \<and> (of_char c :: nat) \<le> 90)"

definition is_lower_char :: "char \<Rightarrow> bool" where
  "is_lower_char c = (97 \<le> (of_char c :: nat) \<and> (of_char c :: nat) \<le> 122)"

definition is_digit_char :: "char \<Rightarrow> bool" where
  "is_digit_char c = (48 \<le> (of_char c :: nat) \<and> (of_char c :: nat) \<le> 57)"

definition lower_char :: "char \<Rightarrow> char" where
  "lower_char c = (if is_upper_char c then char_of ((of_char c :: nat) + 32) else c)"

definition upper_char :: "char \<Rightarrow> char" where
  "upper_char c = (if is_lower_char c then char_of ((of_char c :: nat) - 32) else c)"

definition str_lower :: "string \<Rightarrow> string" where
  "str_lower s = map lower_char s"

definition str_upper :: "string \<Rightarrow> string" where
  "str_upper s = map upper_char s"

text \<open>\<open>str.capitalize\<close>: first character upper case, the rest lower case.\<close>

fun str_capitalize :: "string \<Rightarrow> string" where
  "str_capitalize [] = []"
| "str_capitalize (c # cs) = upper_char c # str_lower cs"

text \<open>
  \<open>str.title\<close>: a letter that follows a non-letter (or starts the text) is upper-cased,
  a letter that follows a letter is lower-cased. The flag says whether the previous
  character was a letter.
\<close>

fun title_from :: "bool \<Rightarrow> string \<Rightarrow> string" where
  "title_from prev [] = []"
| "title_from prev (c # cs) =
     (if is_upper_char c \<or> is_lower_char c
      then (if prev then lower_char c else upper_char c) # title_from True cs
      else c # title_from False cs)"

definition str_title :: "string \<Rightarrow> string" where
  "str_title s = title_from False s"

text \<open>\<open>str.strip()\<close>: ASCII white space (tab, LF, VT, FF, CR, FS..US, space) removed at both ends.\<close>

definition is_space_char :: "char \<Rightarrow> bool" where
  "is_space_char c =
     ((9 \<le> (of_char c :: nat) \<and> (of_char c :: nat) \<le> 13)
      \<or> (28 \<le> (of_char c :: nat) \<and> (of_char c :: nat) \<le> 32))"

definition str_strip :: "string \<Rightarrow> string" where
  "str_strip s = rev (dropWhile is_space_char (rev (dropWhile is_space_char s)))"

text \<open>\<open>str(n)\<close> for an integer: decimal digits, with a leading minus sign below zero.\<close>

definition digit_char :: "nat \<Rightarrow> char" where
  "digit_char d = char_of (48 + d)"

fun str_nat :: "nat \<Rightarrow> string" where
  "str_nat n = (if n < 10 then [digit_char n] else str_nat (n div 10) @ [digit_char (n mod 10)])"

declare str_nat.simps [simp del]

definition str_int :: "int \<Rightarrow> string" where
  "str_int i = (if i < 0 then CHR ''-'' # str_nat (nat (- i)) else str_nat (nat i))"

text \<open>The values that reach \<open>str(attribute_value)\<close>: row ids (integers) and sids (text).\<close>

datatype pyval = PyInt int | PyStr string

fun py_str :: "pyval \<Rightarrow> string" where
  "py_str (PyInt i) = str_int i"
| "py_str (PyStr s) = s"

section \<open>Exceptions and class objects\<close>

datatype exn =
    ValueError string
  | AttributeError string
  | UnboundLocalError string
  | ValidationError "string list"

text \<open>
  A Python class object, as far as the factory reads it: its own \<open>__name__\<close>, and the
  \<open>__name__\<close> of its \<open>__class__\<close> (for a class object, its metaclass).
\<close>

record pyclass =
  dunder_name :: string
  dunder_class_name :: string

text \<open>
  The entity classes of \<open>lib/core/entity/models.py\<close> derive from pydantic's \<open>BaseModel\<close>;
  the class of such a class object is pydantic's \<open>ModelMetaclass\<close>.
\<close>

definition pydantic_model_class :: "string \<Rightarrow> pyclass" where
  "pydantic_model_class n = \<lparr>dunder_name = n, dunder_class_name = ''ModelMetaclass''\<rparr>"

definition ResearchContext_class :: pyclass where
  "ResearchContext_class = pydantic_model_class ''ResearchContext''"

definition SourceData_class :: pyclass where
  "SourceData_class = pydantic_model_class ''SourceData''"

text \<open>
  \<open>MessageResponse\<close> is imported by the message repository from the entity module, which
  does not define it in these sources; it is taken to be one more pydantic entity class.
\<close>

definition MessageResponse_class :: pyclass where
  "MessageResponse_class = pydantic_model_class ''MessageResponse''"

section \<open>The result envelope (\<open>lib/core/sdk/dto.py\<close>)\<close>

record 'a BaseDTO =
  status :: bool
  errorCode :: "int option"
  errorMessage :: "string option"
  errorName :: "string option"
  errorType :: "string option"
  data :: "'a option"

text \<open>
  The local variables of \<open>generate_error_dto_and_message\<close> that are assigned in only some
  branches. \<open>None\<close> is an unbound local: reading it raises \<open>UnboundLocalError\<close>.
\<close>

record factory_locals =
  l_message :: "string option"
  l_name :: "string option"
  l_type :: "string option"
  l_errorName :: "string option"
  l_errorType :: "string option"

definition no_locals :: factory_locals where
  "no_locals = \<lparr>l_message = None, l_name = None, l_type = None,
                 l_errorName = None, l_errorType = None\<rparr>"

text \<open>Reading a local variable; the exception carries the variable's name.\<close>

definition read_local :: "string \<Rightarrow> string option \<Rightarrow> exn + string" where
  "read_local var v =
     (case v of
        None \<Rightarrow> Inl (UnboundLocalError var)
      | Some s \<Rightarrow> Inr s)"

text \<open>The body of \<open>if errorCode == -1:\<close>.\<close>

definition branch_missing_attribute ::
  "int \<Rightarrow> string option \<Rightarrow> string \<Rightarrow> factory_locals \<Rightarrow> exn + factory_locals" where
  "branch_missing_attribute error_code attribute attribute_name l =
     (if attribute = None
      then Inl (ValueError (''Attribute cannot be None for error code '' @ str_int error_code))
      else Inr (l\<lparr>l_message := Some (str_upper attribute_name @ '' cannot be None''),
                  l_name := Some (str_upper attribute_name @ '' not provided''),
                  l_type := Some (str_capitalize attribute_name @ ''NotProvided'')\<rparr>))"

text \<open>The body of \<open>if errorCode == -2:\<close>.\<close>

definition branch_not_found ::
  "int \<Rightarrow> string option \<Rightarrow> string \<Rightarrow> string option \<Rightarrow> factory_locals \<Rightarrow> exn + factory_locals" where
  "branch_not_found error_code attribute attribute_name attribute_value l =
     (if attribute = None
      then Inl (ValueError (''Attribute cannot be None for error code '' @ str_int error_code))
      else case attribute_value of
        None \<Rightarrow> Inl (ValueError (''Attribute value cannot be None for error code '' @ str_int error_code))
      | Some v \<Rightarrow>
          Inr (l\<lparr>l_message := Some (''with '' @ attribute_name @ '' '' @ v @ '' not found in the database''),
                 l_name := Some ''not found'',
                 l_type := Some ''NotFound''\<rparr>))"

text \<open>
  The body of \<open>if errorCode == -3:\<close>. It assigns \<open>errorName\<close> and \<open>errorType\<close>, not
  \<open>name\<close> and \<open>type\<close>. An absent attribute value is formatted as \<open>None\<close>.
\<close>

definition branch_missing_dependent_data ::
  "int \<Rightarrow> string option \<Rightarrow> string \<Rightarrow> string option \<Rightarrow> string option \<Rightarrow> factory_locals
     \<Rightarrow> exn + factory_locals" where
  "branch_missing_dependent_data error_code attribute attribute_name attribute_value missing_data l =
     (if attribute = None
      then Inl (ValueError (''Attribute cannot be None for error code '' @ str_int error_code))
      else case missing_data of
        None \<Rightarrow> Inl (ValueError (''Missing data cannot be None for error code '' @ str_int error_code))
      | Some md \<Rightarrow>
          Inr (l\<lparr>l_message := Some (''with '' @ attribute_name @ '' ''
                                      @ (case attribute_value of None \<Rightarrow> ''None'' | Some v \<Rightarrow> v)
                                      @ '' has no '' @ md),
                 l_errorName := Some (''has no '' @ md),
                 l_errorType := Some (''HasNo'' @ str_strip (str_title md))\<rparr>))"

text \<open>
  The three \<open>if errorCode == ...\<close> statements in sequence; a branch that raises ends the call.
\<close>

definition run_branches ::
  "int \<Rightarrow> string option \<Rightarrow> string \<Rightarrow> string option \<Rightarrow> string option \<Rightarrow> exn + factory_locals" where
  "run_branches error_code attribute attribute_name attribute_value missing_data =
     (case (if error_code = -1
            then branch_missing_attribute error_code attribute attribute_name no_locals
            else Inr no_locals) of
        Inl e \<Rightarrow> Inl e
      | Inr l1 \<Rightarrow>
     (case (if error_code = -2
            then branch_not_found error_code attribute attribute_name attribute_value l1
            else Inr l1) of
        Inl e \<Rightarrow> Inl e
      | Inr l2 \<Rightarrow>
     (if error_code = -3
      then branch_missing_dependent_data error_code attribute attribute_name attribute_value
             missing_data l2
      else Inr l2)))"

text \<open>
  The three closing assignments and the construction of the DTO. The assignments overwrite
  the locals \<open>errorName\<close> and \<open>errorType\<close>; they read \<open>message\<close>, \<open>name\<close> and \<open>type\<close>.
\<close>

definition compose_dto :: "string \<Rightarrow> int \<Rightarrow> factory_locals \<Rightarrow> exn + 'a BaseDTO" where
  "compose_dto entity_name error_code l =
     (case read_local ''message'' (l_message l) of
        Inl e \<Rightarrow> Inl e
      | Inr message \<Rightarrow>
     (case read_local ''name'' (l_name l) of
        Inl e \<Rightarrow> Inl e
      | Inr name \<Rightarrow>
     (case read_local ''type'' (l_type l) of
        Inl e \<Rightarrow> Inl e
      | Inr type \<Rightarrow>
          Inr \<lparr>status = False,
               errorCode = Some error_code,
               errorMessage = Some (entity_name @ '' '' @ message),
               errorName = Some (entity_name @ '' '' @ name),
               errorType = Some (entity_name @ type),
               data = None\<rparr>)))"

text \<open>
  \<open>generate_error_dto_and_message(DTO, entity, errorCode, attribute, attribute_value,
  missing_data)\<close>. The \<open>DTO\<close> argument is the class that is instantiated; it is the type
  of the result here. The parameter \<open>errorCode\<close> is written \<open>error_code\<close>, the former
  being the field of the DTO.

  The second test on the attribute, \<open>attribute is not None and attribute.lower() is "id" or "sid"\<close>,
  is the disjunction of a conjunction with the non-empty text \<open>"sid"\<close>, so it always holds:
  \<open>attribute.upper()\<close> is always evaluated, and raises \<open>AttributeError\<close> on \<open>None\<close>
  (\<open>None\<close> has no attribute \<open>upper\<close>).
\<close>

definition generate_error_dto_and_message ::
  "pyclass \<Rightarrow> int \<Rightarrow> string option \<Rightarrow> pyval option \<Rightarrow> string option \<Rightarrow> exn + 'a BaseDTO" where
  "generate_error_dto_and_message entity error_code attribute attribute_value missing_data =
     (if \<not> (-3 \<le> error_code \<and> error_code < 0)
      then Inl (ValueError (''Error code '' @ str_int error_code @ '' is not valid''))
      else if attribute \<noteq> None \<and> str_lower (the attribute) \<notin> set [''id'', ''sid'']
      then Inl (ValueError (''Attribute '' @ the attribute @ '' is not valid''))
      else
        let entity_name = dunder_class_name entity in
        (case attribute of
           None \<Rightarrow> Inl (AttributeError ''upper'')
         | Some a \<Rightarrow>
             let attribute_name = str_upper a;
                 attribute_value_str = map_option py_str attribute_value
             in (case run_branches error_code attribute attribute_name attribute_value_str
                        missing_data of
                   Inl e \<Rightarrow> Inl e
                 | Inr l \<Rightarrow> compose_dto entity_name error_code l)))"

section \<open>Logical file names (\<open>lib/core/entity/models.py\<close>)\<close>

datatype KnowledgeSourceEnum = TELEGRAM | TWITTER | AUGMENTED | SENTINEL | USER

datatype ProtocolEnum = S3 | NAS | LOCAL

datatype SourceDataStatusEnum = CREATED | UNAVAILABLE | AVAILABLE | INCONSISTENT_DATASET

record LFN =
  protocol :: ProtocolEnum
  tracer_id :: string
  job_id :: int
  source :: KnowledgeSourceEnum
  relative_path :: string

definition marker :: string where
  "marker = ''sdamarker''"

text \<open>\<open>os.path.basename\<close> (POSIX): the text after the last slash.\<close>

definition basename :: "string \<Rightarrow> string" where
  "basename p = rev (takeWhile (\<lambda>c. c \<noteq> CHR ''/'') (rev p))"

text \<open>The character class \<open>[a-zA-Z0-9_\./-]\<close>; \<open>re.sub\<close> deletes every other character.\<close>

definition allowed_char :: "char \<Rightarrow> bool" where
  "allowed_char c =
     (is_lower_char c \<or> is_upper_char c \<or> is_digit_char c
      \<or> c = CHR ''_'' \<or> c = CHR ''.'' \<or> c = CHR ''/'' \<or> c = CHR ''-'')"

definition re_sub_disallowed :: "string \<Rightarrow> string" where
  "re_sub_disallowed v = filter allowed_char v"

text \<open>\<open>v.split(sep)\<close> for a separator of one character; the result is never empty.\<close>

fun str_split :: "char \<Rightarrow> string \<Rightarrow> string list" where
  "str_split sep [] = [[]]"
| "str_split sep (c # cs) =
     (if c = sep then [] # str_split sep cs
      else (case str_split sep cs of
              [] \<Rightarrow> [[c]]
            | piece # pieces \<Rightarrow> (c # piece) # pieces))"

text \<open>
  \<open>str(uuid.uuid4())\<close>: the 128 bits as 32 lower-case hexadecimal digits (\<open>'%032x'\<close>),
  grouped 8-4-4-4-12 with hyphens. The random value is an argument.
\<close>

definition hex_char :: "nat \<Rightarrow> char" where
  "hex_char d = (if d < 10 then char_of (48 + d) else char_of (87 + d))"

definition is_hex_char :: "char \<Rightarrow> bool" where
  "is_hex_char c = (is_digit_char c \<or> (97 \<le> (of_char c :: nat) \<and> (of_char c :: nat) \<le> 102))"

fun hex_digits :: "nat \<Rightarrow> nat \<Rightarrow> string" where
  "hex_digits 0 n = []"
| "hex_digits (Suc k) n = hex_digits k (n div 16) @ [hex_char (n mod 16)]"

definition uuid_str :: "128 word \<Rightarrow> string" where
  "uuid_str u =
     (let hex = hex_digits 32 (unat u)
      in take 8 hex @ ''-'' @ take 4 (drop 8 hex) @ ''-'' @ take 4 (drop 12 hex) @ ''-''
         @ take 4 (drop 16 hex) @ ''-'' @ drop 20 hex)"

text \<open>\<open>s.replace(c, "")\<close> for one character \<open>c\<close>.\<close>

definition str_remove :: "char \<Rightarrow> string \<Rightarrow> string" where
  "str_remove c s = filter (\<lambda>d. d \<noteq> c) s"

text \<open>
  The validator of the field \<open>relative_path\<close>. \<open>marker not in v\<close> is the test for a
  contiguous occurrence; \<open>uuid4\<close> is the value drawn by \<open>uuid.uuid4()\<close>.
\<close>

definition relative_path_must_be_alphanumberic_underscores_backslashes ::
  "128 word \<Rightarrow> string \<Rightarrow> string" where
  "relative_path_must_be_alphanumberic_underscores_backslashes uuid4 v =
     (if \<not> sublist marker v
      then
        let v1 = basename v;
            v2 = re_sub_disallowed v1;
            ext = last (str_split CHR ''.'' v2);
            name = hd (str_split CHR ''.'' v2);
            seed = str_remove CHR ''-'' (uuid_str uuid4)
        in name @ ''-'' @ seed @ ''-'' @ marker @ ''.'' @ ext
      else v)"

text \<open>Constructing an \<open>LFN\<close> runs the validator on \<open>relative_path\<close>.\<close>

definition LFN_init ::
  "128 word \<Rightarrow> ProtocolEnum \<Rightarrow> string \<Rightarrow> int \<Rightarrow> KnowledgeSourceEnum \<Rightarrow> string \<Rightarrow> LFN" where
  "LFN_init uuid4 p t j s r =
     \<lparr>protocol = p, tracer_id = t, job_id = j, source = s,
      relative_path = relative_path_must_be_alphanumberic_underscores_backslashes uuid4 r\<rparr>"

text \<open>The number of places at which a text occurs in another.\<close>

fun occurrences :: "string \<Rightarrow> string \<Rightarrow> nat" where
  "occurrences sub [] = (if sub = [] then 1 else 0)"
| "occurrences sub (c # cs) = (if prefix sub (c # cs) then 1 else 0) + occurrences sub cs"

section \<open>JSON form of a logical file name\<close>

text \<open>
  \<open>LFN.to_json\<close> is pydantic's \<open>model_dump_json\<close>: the fields in declaration order, as a
  JSON object without white space; an enum member is written as its value.
\<close>

fun ProtocolEnum_value :: "ProtocolEnum \<Rightarrow> string" where
  "ProtocolEnum_value S3 = ''s3''"
| "ProtocolEnum_value NAS = ''nas''"
| "ProtocolEnum_value LOCAL = ''local''"

fun KnowledgeSourceEnum_value :: "KnowledgeSourceEnum \<Rightarrow> string" where
  "KnowledgeSourceEnum_value TELEGRAM = ''telegram''"
| "KnowledgeSourceEnum_value TWITTER = ''twitter''"
| "KnowledgeSourceEnum_value AUGMENTED = ''augmented''"
| "KnowledgeSourceEnum_value SENTINEL = ''sentinel''"
| "KnowledgeSourceEnum_value USER = ''user''"

definition dquote :: char where
  "dquote = CHR 0x22"

definition backslash :: char where
  "backslash = CHR 0x5C"

text \<open>
  A character inside a JSON string: the quote, the backslash and the control characters
  are escaped, the latter as \<open>\b \f \n \r \t\<close> or \<open>\u00XX\<close>; any other character is
  written as it is.
\<close>

definition json_escape_char :: "char \<Rightarrow> string" where
  "json_escape_char c =
     (if c = dquote then [backslash, dquote]
      else if c = backslash then [backslash, backslash]
      else if c = CHR 0x08 then [backslash, CHR ''b'']
      else if c = CHR 0x0C then [backslash, CHR ''f'']
      else if c = CHR 0x0A then [backslash, CHR ''n'']
      else if c = CHR 0x0D then [backslash, CHR ''r'']
      else if c = CHR 0x09 then [backslash, CHR ''t'']
      else if (of_char c :: nat) < 32
      then [backslash, CHR ''u'', CHR ''0'', CHR ''0'',
            hex_char ((of_char c :: nat) div 16), hex_char ((of_char c :: nat) mod 16)]
      else [c])"

definition json_escape :: "string \<Rightarrow> string" where
  "json_escape s = concat (map json_escape_char s)"

definition json_string :: "string \<Rightarrow> string" where
  "json_string s = dquote # json_escape s @ [dquote]"

definition model_dump_json :: "LFN \<Rightarrow> string" where
  "model_dump_json x =
     ''{'' @ json_string ''protocol'' @ '':'' @ json_string (ProtocolEnum_value (protocol x))
     @ '','' @ json_string ''tracer_id'' @ '':'' @ json_string (tracer_id x)
     @ '','' @ json_string ''job_id'' @ '':'' @ str_int (job_id x)
     @ '','' @ json_string ''source'' @ '':'' @ json_string (KnowledgeSourceEnum_value (source x))
     @ '','' @ json_string ''relative_path'' @ '':'' @ json_string (relative_path x)
     @ ''}''"

definition to_json :: "LFN \<Rightarrow> string" where
  "to_json x = model_dump_json x"

text \<open>
  \<open>LFN.from_json\<close> is pydantic's \<open>model_validate_json\<close>. The reader below covers the JSON
  texts that are one object whose members are strings or integers, with white space
  between the tokens, members in any order, and members that are no field of the model.
  Other JSON values (nested values, fractions, exponents, booleans, \<open>null\<close>) and escapes
  of characters above \<open>\u00ff\<close> are outside this fragment and read as invalid.
\<close>

datatype json = JString string | JInt int

definition is_json_ws :: "char \<Rightarrow> bool" where
  "is_json_ws c = (c = CHR 0x20 \<or> c = CHR 0x09 \<or> c = CHR 0x0A \<or> c = CHR 0x0D)"

definition skip_ws :: "string \<Rightarrow> string" where
  "skip_ws s = dropWhile is_json_ws s"

definition hex_value :: "char \<Rightarrow> nat option" where
  "hex_value c =
     (if is_digit_char c then Some ((of_char c :: nat) - 48)
      else if 97 \<le> (of_char c :: nat) \<and> (of_char c :: nat) \<le> 102 then Some ((of_char c :: nat) - 87)
      else if 65 \<le> (of_char c :: nat) \<and> (of_char c :: nat) \<le> 70 then Some ((of_char c :: nat) - 55)
      else None)"

definition json_unescape :: "char \<Rightarrow> char option" where
  "json_unescape e =
     (if e = dquote then Some dquote
      else if e = backslash then Some backslash
      else if e = CHR ''/'' then Some CHR ''/''
      else if e = CHR ''b'' then Some (CHR 0x08)
      else if e = CHR ''f'' then Some (CHR 0x0C)
      else if e = CHR ''n'' then Some (CHR 0x0A)
      else if e = CHR ''r'' then Some (CHR 0x0D)
      else if e = CHR ''t'' then Some (CHR 0x09)
      else None)"

definition cons_text :: "char \<Rightarrow> (string \<times> string) option \<Rightarrow> (string \<times> string) option" where
  "cons_text c r = (case r of None \<Rightarrow> None | Some (t, rest) \<Rightarrow> Some (c # t, rest))"

text \<open>
  The text of a JSON string from the character after the opening quote on: the decoded
  text and what follows the closing quote.
\<close>

fun json_string_body :: "string \<Rightarrow> (string \<times> string) option" where
  "json_string_body [] = None"
| "json_string_body (c # cs) =
     (if c = dquote then Some ([], cs)
      else if c = backslash then
        (case cs of
           [] \<Rightarrow> None
         | e # r \<Rightarrow>
             if e = CHR ''u'' then
               (case r of
                  h3 # h2 # h1 # h0 # r' \<Rightarrow>
                    (case (hex_value h3, hex_value h2, hex_value h1, hex_value h0) of
                       (Some v3, Some v2, Some v1, Some v0) \<Rightarrow>
                         if v3 = 0 \<and> v2 = 0
                         then cons_text (char_of (16 * v1 + v0)) (json_string_body r')
                         else None
                     | _ \<Rightarrow> None)
                | _ \<Rightarrow> None)
             else
               (case json_unescape e of
                  None \<Rightarrow> None
                | Some u \<Rightarrow> cons_text u (json_string_body r)))
      else if (of_char c :: nat) < 32 then None
      else cons_text c (json_string_body cs))"

definition nat_of_digits :: "string \<Rightarrow> nat" where
  "nat_of_digits ds = foldl (\<lambda>a c. 10 * a + ((of_char c :: nat) - 48)) 0 ds"

text \<open>
  An integer: an optional minus sign and decimal digits without a leading zero, not
  followed by a fraction or an exponent.
\<close>

definition json_digits :: "string \<Rightarrow> (nat \<times> string) option" where
  "json_digits s =
     (let ds = takeWhile is_digit_char s; rest = dropWhile is_digit_char s
      in if ds = [] then None
         else if 1 < length ds \<and> take 1 ds = ''0'' then None
         else if take 1 rest = ''.'' \<or> take 1 rest = ''e'' \<or> take 1 rest = ''E'' then None
         else Some (nat_of_digits ds, rest))"

definition json_number :: "string \<Rightarrow> (int \<times> string) option" where
  "json_number s =
     (case s of
        [] \<Rightarrow> None
      | c # r \<Rightarrow>
          if c = CHR ''-''
          then (case json_digits r of None \<Rightarrow> None | Some (n, rest) \<Rightarrow> Some (- int n, rest))
          else (case json_digits s of None \<Rightarrow> None | Some (n, rest) \<Rightarrow> Some (int n, rest)))"

definition json_value :: "string \<Rightarrow> (json \<times> string) option" where
  "json_value s =
     (case s of
        [] \<Rightarrow> None
      | c # r \<Rightarrow>
          if c = dquote
          then (case json_string_body r of None \<Rightarrow> None | Some (t, rest) \<Rightarrow> Some (JString t, rest))
          else (case json_number s of None \<Rightarrow> None | Some (i, rest) \<Rightarrow> Some (JInt i, rest)))"

text \<open>One member \<open>"key": value\<close>.\<close>

definition json_member :: "string \<Rightarrow> ((string \<times> json) \<times> string) option" where
  "json_member s =
     (case skip_ws s of
        [] \<Rightarrow> None
      | c # r \<Rightarrow>
          if c \<noteq> dquote then None
          else (case json_string_body r of
                  None \<Rightarrow> None
                | Some (k, r1) \<Rightarrow>
                    (case skip_ws r1 of
                       [] \<Rightarrow> None
                     | c1 # r2 \<Rightarrow>
                         if c1 \<noteq> CHR '':'' then None
                         else (case json_value (skip_ws r2) of
                                 None \<Rightarrow> None
                               | Some (v, r3) \<Rightarrow> Some ((k, v), r3)))))"

text \<open>
  The members up to the closing brace. The first argument bounds the number of members;
  \<open>json_object\<close> passes the length of the text, which no text exceeds.
\<close>

fun json_members :: "nat \<Rightarrow> string \<Rightarrow> ((string \<times> json) list \<times> string) option" where
  "json_members 0 s = None"
| "json_members (Suc n) s =
     (case json_member s of
        None \<Rightarrow> None
      | Some (m, r) \<Rightarrow>
          (case skip_ws r of
             [] \<Rightarrow> None
           | c # r1 \<Rightarrow>
               if c = CHR '','' then
                 (case json_members n r1 of
                    None \<Rightarrow> None
                  | Some (ms, r2) \<Rightarrow> Some (m # ms, r2))
               else if c = CHR ''}'' then Some ([m], r1)
               else None))"

definition json_object :: "string \<Rightarrow> (string \<times> json) list option" where
  "json_object s =
     (case skip_ws s of
        [] \<Rightarrow> None
      | c # r \<Rightarrow>
          if c \<noteq> CHR ''{'' then None
          else (case (if take 1 (skip_ws r) = ''}'' then Some ([], drop 1 (skip_ws r))
                      else json_members (length r) r) of
                  None \<Rightarrow> None
                | Some (ms, rest) \<Rightarrow> if skip_ws rest = [] then Some ms else None))"

text \<open>The member of a name; of two members with one name the later one counts.\<close>

definition json_field :: "(string \<times> json) list \<Rightarrow> string \<Rightarrow> json option" where
  "json_field ms k = map_of (rev ms) k"

definition ProtocolEnum_of_value :: "string \<Rightarrow> ProtocolEnum option" where
  "ProtocolEnum_of_value v =
     (if v = ''s3'' then Some S3 else if v = ''nas'' then Some NAS
      else if v = ''local'' then Some LOCAL else None)"

definition KnowledgeSourceEnum_of_value :: "string \<Rightarrow> KnowledgeSourceEnum option" where
  "KnowledgeSourceEnum_of_value v =
     (if v = ''telegram'' then Some TELEGRAM else if v = ''twitter'' then Some TWITTER
      else if v = ''augmented'' then Some AUGMENTED else if v = ''sentinel'' then Some SENTINEL
      else if v = ''user'' then Some USER else None)"

definition validate_protocol :: "json option \<Rightarrow> ProtocolEnum option" where
  "validate_protocol v = (case v of Some (JString s) \<Rightarrow> ProtocolEnum_of_value s | _ \<Rightarrow> None)"

definition validate_source :: "json option \<Rightarrow> KnowledgeSourceEnum option" where
  "validate_source v = (case v of Some (JString s) \<Rightarrow> KnowledgeSourceEnum_of_value s | _ \<Rightarrow> None)"

definition validate_str :: "json option \<Rightarrow> string option" where
  "validate_str v = (case v of Some (JString s) \<Rightarrow> Some s | _ \<Rightarrow> None)"

definition validate_int :: "json option \<Rightarrow> int option" where
  "validate_int v = (case v of Some (JInt i) \<Rightarrow> Some i | _ \<Rightarrow> None)"

text \<open>
  Validation of the members against the fields of \<open>LFN\<close>; the validator of
  \<open>relative_path\<close> runs as in the constructor. A failure names the fields in error.
\<close>

definition model_validate :: "128 word \<Rightarrow> (string \<times> json) list \<Rightarrow> exn + LFN" where
  "model_validate uuid4 ms =
     (case (validate_protocol (json_field ms ''protocol''),
            validate_str (json_field ms ''tracer_id''),
            validate_int (json_field ms ''job_id''),
            validate_source (json_field ms ''source''),
            validate_str (json_field ms ''relative_path'')) of
        (Some p, Some t, Some j, Some s, Some r) \<Rightarrow> Inr (LFN_init uuid4 p t j s r)
      | (p, t, j, s, r) \<Rightarrow>
          Inl (ValidationError
                 ((if p = None then [''protocol''] else [])
                  @ (if t = None then [''tracer_id''] else [])
                  @ (if j = None then [''job_id''] else [])
                  @ (if s = None then [''source''] else [])
                  @ (if r = None then [''relative_path''] else []))))"

definition model_validate_json :: "128 word \<Rightarrow> string \<Rightarrow> exn + LFN" where
  "model_validate_json uuid4 json_data =
     (case json_object json_data of
        None \<Rightarrow> Inl (ValidationError [''json_invalid''])
      | Some ms \<Rightarrow> model_validate uuid4 ms)"

definition from_json :: "128 word \<Rightarrow> string \<Rightarrow> exn + LFN" where
  "from_json uuid4 json_str = model_validate_json uuid4 json_str"

text \<open>The text of \<open>model_dump_json\<close> after the opening brace, character by character.\<close>

definition lfn_members_text :: "LFN \<Rightarrow> string" where
  "lfn_members_text x =
     dquote # json_escape ''protocol'' @ dquote # CHR '':'' # dquote
       # json_escape (ProtocolEnum_value (protocol x)) @ dquote # CHR '','' #
     dquote # json_escape ''tracer_id'' @ dquote # CHR '':'' # dquote
       # json_escape (tracer_id x) @ dquote # CHR '','' #
     dquote # json_escape ''job_id'' @ dquote # CHR '':'' # str_int (job_id x) @ CHR '','' #
     dquote # json_escape ''source'' @ dquote # CHR '':'' # dquote
       # json_escape (KnowledgeSourceEnum_value (source x)) @ dquote # CHR '','' #
     dquote # json_escape ''relative_path'' @ dquote # CHR '':'' # dquote
       # json_escape (relative_path x) @ dquote # CHR ''}'' # []"

section \<open>Entities\<close>

type_synonym datetime = nat

record BaseKernelPlancksterModel =
  created_at :: datetime
  updated_at :: datetime

record BaseSoftDeleteKernelPlancksterModel = BaseKernelPlancksterModel +
  deleted :: bool
  deleted_at :: "datetime option"

text \<open>
  The fields \<open>id\<close>, \<open>name\<close>, \<open>type\<close>, \<open>lfn\<close>, \<open>status\<close> of \<open>SourceData\<close> and
  \<open>id\<close>, \<open>title\<close>, \<open>description\<close> of \<open>ResearchContext\<close>, prefixed by the entity.
\<close>

record SourceData = BaseSoftDeleteKernelPlancksterModel +
  sd_id :: int
  sd_name :: string
  sd_type :: string
  sd_lfn :: LFN
  sd_status :: SourceDataStatusEnum

record ResearchContext = BaseSoftDeleteKernelPlancksterModel +
  rc_id :: int
  rc_title :: string
  rc_description :: string

text \<open>
  The keyword arguments of a call \<open>SourceData(...)\<close>: \<open>None\<close> is a keyword that the call
  does not pass. \<open>kw_other\<close> lists the keywords passed that are no field of the model;
  pydantic ignores them.
\<close>

record SourceData_kwargs =
  kw_created_at :: "datetime option"
  kw_updated_at :: "datetime option"
  kw_deleted :: "bool option"
  kw_deleted_at :: "datetime option option"
  kw_id :: "int option"
  kw_name :: "string option"
  kw_type :: "string option"
  kw_lfn :: "LFN option"
  kw_status :: "SourceDataStatusEnum option"
  kw_other :: "string list"

text \<open>
  Every field of \<open>SourceData\<close> is declared without a default, so every one is required:
  pydantic raises \<open>ValidationError\<close>, naming the fields that are missing.
\<close>

definition missing_fields :: "SourceData_kwargs \<Rightarrow> string list" where
  "missing_fields kw =
     (if kw_created_at kw = None then [''created_at''] else [])
     @ (if kw_updated_at kw = None then [''updated_at''] else [])
     @ (if kw_deleted kw = None then [''deleted''] else [])
     @ (if kw_deleted_at kw = None then [''deleted_at''] else [])
     @ (if kw_id kw = None then [''id''] else [])
     @ (if kw_name kw = None then [''name''] else [])
     @ (if kw_type kw = None then [''type''] else [])
     @ (if kw_lfn kw = None then [''lfn''] else [])
     @ (if kw_status kw = None then [''status''] else [])"

definition SourceData_init :: "SourceData_kwargs \<Rightarrow> exn + SourceData" where
  "SourceData_init kw =
     (case (kw_created_at kw, kw_updated_at kw, kw_deleted kw, kw_deleted_at kw, kw_id kw,
            kw_name kw, kw_type kw, kw_lfn kw, kw_status kw) of
        (Some c, Some u, Some d, Some da, Some i, Some n, Some t, Some l, Some s) \<Rightarrow>
          Inr \<lparr>created_at = c, updated_at = u, deleted = d, deleted_at = da,
               sd_id = i, sd_name = n, sd_type = t, sd_lfn = l, sd_status = s\<rparr>
      | _ \<Rightarrow> Inl (ValidationError (missing_fields kw)))"

section \<open>Persistence rows\<close>

text \<open>
  The ORM classes (\<open>lib/infrastructure/repository/sqla/models.py\<close>) are not part of these
  sources. A row is modelled by the attributes that the repositories read from it; a
  table is the list of its rows, and a query by id yields the first row with that id.
\<close>

record SQLACitation =
  source_data_id :: int

record SQLAMessageResponse =
  message_row_id :: int
  citations :: "SQLACitation list"

record SQLASourceData =
  row_created_at :: datetime
  row_updated_at :: datetime
  row_deleted :: bool
  row_deleted_at :: "datetime option"
  row_id :: int
  row_name :: string
  row_type :: string
  row_lfn :: LFN
  row_protocol :: ProtocolEnum

record 'rc session =
  research_context_rows :: "(int \<times> 'rc) list"
  message_response_rows :: "SQLAMessageResponse list"
  source_data_rows :: "SQLASourceData list"

text \<open>\<open>session.get(SQLAResearchContext, research_context_id)\<close>.\<close>

definition session_get_research_context :: "'rc session \<Rightarrow> int \<Rightarrow> 'rc option" where
  "session_get_research_context s i = map_of (research_context_rows s) i"

text \<open>\<open>session.query(SQLAMessageResponse).filter_by(id=message_id).first()\<close>.\<close>

definition query_message_response :: "'rc session \<Rightarrow> int \<Rightarrow> SQLAMessageResponse option" where
  "query_message_response s i = find (\<lambda>r. message_row_id r = i) (message_response_rows s)"

text \<open>\<open>session.query(SQLASourceData).filter_by(id=citation.source_data_id).first()\<close>.\<close>

definition query_source_data :: "'rc session \<Rightarrow> int \<Rightarrow> SQLASourceData option" where
  "query_source_data s i = find (\<lambda>r. row_id r = i) (source_data_rows s)"

section \<open>Research context repository\<close>

type_synonym GetResearchContextDTO = "ResearchContext BaseDTO"

text \<open>
  \<open>get_research_context\<close>. The conversion of a row into the entity
  (\<open>convert_sqla_research_context_to_core_research_context\<close>, in a module that is not part
  of these sources) is an argument. Logging is left out.
\<close>

definition get_research_context ::
  "'rc session \<Rightarrow> ('rc \<Rightarrow> ResearchContext) \<Rightarrow> int \<Rightarrow> GetResearchContextDTO" where
  "get_research_context s convert research_context_id =
     (case session_get_research_context s research_context_id of
        None \<Rightarrow>
          \<lparr>status = False,
           errorCode = Some (- 1),
           errorMessage = Some (''Research context '' @ str_int research_context_id @ '' not found.''),
           errorName = Some ''ResearchContextNotFound'',
           errorType = Some ''ResearchContextNotFound'',
           data = None\<rparr>
      | Some sqla_research_context \<Rightarrow>
          \<lparr>status = True, errorCode = None, errorMessage = None, errorName = None,
           errorType = None, data = Some (convert sqla_research_context)\<rparr>)"

section \<open>Message repository\<close>

type_synonym ListMessageSourcesDTO = "SourceData list BaseDTO"

text \<open>
  The keywords of the call \<open>SourceData(...)\<close> in \<open>list_message_sources\<close>: the eight fields
  read from the row and \<open>protocol\<close>, which is no field of \<open>SourceData\<close>; no \<open>status\<close>.
\<close>

definition source_core_kwargs :: "SQLASourceData \<Rightarrow> SourceData_kwargs" where
  "source_core_kwargs r =
     \<lparr>kw_created_at = Some (row_created_at r),
      kw_updated_at = Some (row_updated_at r),
      kw_deleted = Some (row_deleted r),
      kw_deleted_at = Some (row_deleted_at r),
      kw_id = Some (row_id r),
      kw_name = Some (row_name r),
      kw_type = Some (row_type r),
      kw_lfn = Some (row_lfn r),
      kw_status = None,
      kw_other = [''protocol'']\<rparr>"

text \<open>
  The loop over the citations of the message, with \<open>sources_list\<close> as accumulator, and the
  return after the loop. An exception or an error DTO ends the loop at once.
\<close>

fun resolve_citations ::
  "'rc session \<Rightarrow> SQLACitation list \<Rightarrow> SourceData list \<Rightarrow> exn + ListMessageSourcesDTO" where
  "resolve_citations s [] sources_list =
     Inr \<lparr>status = True, errorCode = None, errorMessage = None, errorName = None,
          errorType = None, data = Some sources_list\<rparr>"
| "resolve_citations s (citation # rest) sources_list =
     (case query_source_data s (source_data_id citation) of
        None \<Rightarrow>
          generate_error_dto_and_message SourceData_class (- 2) (Some ''ID'')
            (Some (PyInt (source_data_id citation))) None
      | Some sqla_source_data \<Rightarrow>
          (case SourceData_init (source_core_kwargs sqla_source_data) of
             Inl e \<Rightarrow> Inl e
           | Inr source_core \<Rightarrow> resolve_citations s rest (sources_list @ [source_core])))"

text \<open>\<open>list_message_sources\<close>; \<open>message_id\<close> may be \<open>None\<close>. Logging is left out.\<close>

definition list_message_sources :: "'rc session \<Rightarrow> int option \<Rightarrow> exn + ListMessageSourcesDTO" where
  "list_message_sources s message_id =
     (case message_id of
        None \<Rightarrow>
          generate_error_dto_and_message MessageResponse_class (- 1) (Some ''ID'') None None
      | Some mid \<Rightarrow>
          (case query_message_response s mid of
             None \<Rightarrow>
               generate_error_dto_and_message MessageResponse_class (- 2) (Some ''ID'')
                 (Some (PyInt mid)) None
           | Some sqla_message \<Rightarrow> resolve_citations s (citations sqla_message) []))"

section \<open>Example stores\<close>

definition empty_session :: "unit session" where
  "empty_session = \<lparr>research_context_rows = [], message_response_rows = [], source_data_rows = []\<rparr>"

definition example_lfn :: LFN where
  "example_lfn =
     \<lparr>protocol = S3, tracer_id = ''user-1'', job_id = 1, source = USER,
      relative_path = ''report-00112233445566778899aabbccddeeff-sdamarker.pdf''\<rparr>"

definition example_source_row :: SQLASourceData where
  "example_source_row =
     \<lparr>row_created_at = 0, row_updated_at = 0, row_deleted = False, row_deleted_at = None,
      row_id = 7, row_name = ''report'', row_type = ''pdf'', row_lfn = example_lfn,
      row_protocol = S3\<rparr>"

text \<open>
  Message 1 cites source data 7; message 2 cites source data 7 and then 8; message 3 cites
  source data 8. Only source data 7 is stored.
\<close>

definition example_session :: "unit session" where
  "example_session =
     \<lparr>research_context_rows = [],
      message_response_rows =
        [\<lparr>message_row_id = 1, citations = [\<lparr>source_data_id = 7\<rparr>]\<rparr>,
         \<lparr>message_row_id = 2, citations = [\<lparr>source_data_id = 7\<rparr>, \<lparr>source_data_id = 8\<rparr>]\<rparr>,
         \<lparr>message_row_id = 3, citations = [\<lparr>source_data_id = 8\<rparr>]\<rparr>],
      source_data_rows = [example_source_row]\<rparr>"

section \<open>Properties of the text operations\<close>

lemma upper_char_idem: "upper_char (upper_char c) = upper_char c"
  by (auto simp add: upper_char_def is_lower_char_def)

lemma str_upper_idem: "str_upper (str_upper s) = str_upper s"
  by (simp add: str_upper_def upper_char_idem)

lemma upper_of_lower_char:
  "lower_char c = d \<Longrightarrow> is_lower_char d \<Longrightarrow> upper_char c = upper_char d"
  by (auto simp add: upper_char_def lower_char_def is_lower_char_def is_upper_char_def)

lemma upper_char_i: "upper_char CHR ''i'' = CHR ''I''"
  by code_simp

lemma upper_char_d: "upper_char CHR ''d'' = CHR ''D''"
  by code_simp

lemma upper_char_s: "upper_char CHR ''s'' = CHR ''S''"
  by code_simp

lemma str_lower_id_upper:
  assumes "str_lower a = ''id''"
  shows "str_upper a = ''ID''"
proof -
  from assms obtain x y where a: "a = [x, y]"
    and x: "lower_char x = CHR ''i''" and y: "lower_char y = CHR ''d''"
    by (auto simp add: str_lower_def)
  have "upper_char x = CHR ''I''"
    using upper_of_lower_char [OF x] by (simp add: is_lower_char_def upper_char_i)
  moreover have "upper_char y = CHR ''D''"
    using upper_of_lower_char [OF y] by (simp add: is_lower_char_def upper_char_d)
  ultimately show ?thesis
    by (simp add: a str_upper_def)
qed

lemma str_lower_sid_upper:
  assumes "str_lower a = ''sid''"
  shows "str_upper a = ''SID''"
proof -
  from assms obtain x y z where a: "a = [x, y, z]"
    and x: "lower_char x = CHR ''s''" and y: "lower_char y = CHR ''i''"
    and z: "lower_char z = CHR ''d''"
    by (auto simp add: str_lower_def)
  have "upper_char x = CHR ''S''"
    using upper_of_lower_char [OF x] by (simp add: is_lower_char_def upper_char_s)
  moreover have "upper_char y = CHR ''I''"
    using upper_of_lower_char [OF y] by (simp add: is_lower_char_def upper_char_i)
  moreover have "upper_char z = CHR ''D''"
    using upper_of_lower_char [OF z] by (simp add: is_lower_char_def upper_char_d)
  ultimately show ?thesis
    by (simp add: a str_upper_def)
qed

lemma str_lower_id: "str_lower ''id'' = ''id''"
  by code_simp

lemma str_int_42: "str_int 42 = ''42''"
  by code_simp

lemma str_int_minus_two: "str_int (- 2) = ''-2''"
  by code_simp

lemma str_int_minus_three: "str_int (- 3) = ''-3''"
  by code_simp

section \<open>The error-envelope factory\<close>

lemmas factory_defs =
  generate_error_dto_and_message_def run_branches_def branch_missing_attribute_def
  branch_not_found_def branch_missing_dependent_data_def compose_dto_def read_local_def
  no_locals_def Let_def

lemma factory_missing_attribute:
  "(generate_error_dto_and_message entity (- 1) (Some a) av md :: exn + 'a BaseDTO) =
     (if str_lower a \<in> {''id'', ''sid''}
      then Inr \<lparr>status = False, errorCode = Some (- 1),
                errorMessage = Some (dunder_class_name entity @ '' '' @ str_upper a @ '' cannot be None''),
                errorName = Some (dunder_class_name entity @ '' '' @ str_upper a @ '' not provided''),
                errorType = Some (dunder_class_name entity @ str_capitalize (str_upper a) @ ''NotProvided''),
                data = None\<rparr>
      else Inl (ValueError (''Attribute '' @ a @ '' is not valid'')))"
  by (simp add: factory_defs str_upper_idem)

lemma factory_not_found:
  assumes "str_lower a \<in> {''id'', ''sid''}"
  shows "(generate_error_dto_and_message entity (- 2) (Some a) (Some v) md :: exn + 'a BaseDTO) =
      Inr \<lparr>status = False, errorCode = Some (- 2),
           errorMessage = Some (dunder_class_name entity @ '' with '' @ str_upper a @ '' ''
                                @ py_str v @ '' not found in the database''),
           errorName = Some (dunder_class_name entity @ '' not found''),
           errorType = Some (dunder_class_name entity @ ''NotFound''),
           data = None\<rparr>"
  using assms by (simp add: factory_defs)

lemma factory_rejects_iff:
  assumes "error_code \<in> {- 1, - 2, - 3}"
  shows "((generate_error_dto_and_message entity error_code (Some a) av md :: exn + 'a BaseDTO)
            = Inl (ValueError (''Attribute '' @ a @ '' is not valid'')))
         \<longleftrightarrow> str_lower a \<notin> {''id'', ''sid''}"
proof (cases "str_lower a \<in> {''id'', ''sid''}")
  case False
  then show ?thesis
    using assms by (auto simp add: generate_error_dto_and_message_def)
next
  case True
  then have "length a = 2 \<or> length a = 3"
    by (auto simp add: str_lower_def)
  then obtain x y z where "a = [x, y] \<or> a = [x, y, z]"
    by (cases a; cases "tl a"; cases "tl (tl a)"; cases "tl (tl (tl a))") auto
  with True show ?thesis
    using assms
    by (auto simp add: factory_defs str_int_minus_two str_int_minus_three split: option.splits)
qed

text \<open>
  C3. The factory called with error code \<open>-3\<close> (entity missing dependent data) and complete
  context: entity \<open>SourceData\<close>, attribute \<open>id\<close>, attribute value \<open>1\<close>, missing data \<open>lfn\<close>.
  The call does not return an error DTO: the closing assignment reads the local \<open>name\<close>,
  which the \<open>-3\<close> branch never assigns, and the call ends in \<open>UnboundLocalError\<close>.
\<close>

theorem missing_dependent_data_call_raises:
  "(generate_error_dto_and_message SourceData_class (- 3) (Some ''id'') (Some (PyInt 1))
      (Some ''lfn'') :: exn + 'a BaseDTO) = Inl (UnboundLocalError ''name'')"
  by (simp add: factory_defs str_lower_id)

text \<open>With error code \<open>-3\<close> no argument makes the factory return a DTO.\<close>

lemma missing_dependent_data_never_returns:
  "\<exists>e. (generate_error_dto_and_message entity (- 3) a av md :: exn + 'a BaseDTO) = Inl e"
  by (auto simp add: factory_defs split: option.splits sum.splits)

text \<open>
  C4. The factory called for \<open>NotFound\<close> on the entity class \<open>ResearchContext\<close> with
  attribute \<open>id\<close> and value \<open>42\<close>. The composed texts start with the name of the class of
  the class object (\<open>ModelMetaclass\<close>), not with the entity's name: the message is
  \<open>ModelMetaclass with ID 42 not found in the database\<close>.
\<close>

theorem not_found_message_names_metaclass:
  "(generate_error_dto_and_message ResearchContext_class (- 2) (Some ''id'') (Some (PyInt 42)) None
      :: exn + 'a BaseDTO) =
     Inr \<lparr>status = False, errorCode = Some (- 2),
          errorMessage = Some ''ModelMetaclass with ID 42 not found in the database'',
          errorName = Some ''ModelMetaclass not found'',
          errorType = Some ''ModelMetaclassNotFound'',
          data = None\<rparr>"
  by (simp add: factory_not_found str_lower_id str_lower_id_upper str_int_42
        ResearchContext_class_def pydantic_model_class_def)

text \<open>
  C6. A call of the factory with an error code outside \<open>{-1, -2, -3}\<close>, or with an attribute
  whose lower-cased name is neither \<open>id\<close> nor \<open>sid\<close>, or without an attribute, or with
  code \<open>-2\<close> and no attribute value, or with code \<open>-3\<close> and no missing-data name, raises
  an exception: it returns no DTO.
\<close>

theorem contract_violation_raises:
  assumes "error_code \<notin> {- 1, - 2, - 3}
        \<or> (\<exists>a. attribute = Some a \<and> str_lower a \<notin> {''id'', ''sid''})
        \<or> attribute = None
        \<or> (error_code = - 2 \<and> attribute_value = None)
        \<or> (error_code = - 3 \<and> missing_data = None)"
  shows "\<exists>e. (generate_error_dto_and_message entity error_code attribute attribute_value
                missing_data :: exn + 'a BaseDTO) = Inl e"
  using assms by (auto simp add: factory_defs split: option.splits sum.splits)

lemma str_lower_name: "str_lower ''name'' = ''name''"
  by code_simp

theorem contract_violation_raises_witness:
  "(0::int) \<notin> {- 1, - 2, - 3}
   \<and> (\<exists>e. (generate_error_dto_and_message ResearchContext_class 0 (Some ''id'')
               (Some (PyInt 42)) None :: exn + GetResearchContextDTO) = Inl e)
   \<and> str_lower ''name'' \<notin> {''id'', ''sid''}
   \<and> (\<exists>e. (generate_error_dto_and_message ResearchContext_class (- 2) (Some ''name'')
               (Some (PyInt 42)) None :: exn + GetResearchContextDTO) = Inl e)
   \<and> (\<exists>e. (generate_error_dto_and_message ResearchContext_class (- 1) None None None
              :: exn + GetResearchContextDTO) = Inl e)
   \<and> (\<exists>e. (generate_error_dto_and_message ResearchContext_class (- 2) (Some ''id'') None None
              :: exn + GetResearchContextDTO) = Inl e)
   \<and> (\<exists>e. (generate_error_dto_and_message ResearchContext_class (- 3) (Some ''id'')
               (Some (PyInt 42)) None :: exn + GetResearchContextDTO) = Inl e)"
  using
    contract_violation_raises [where ?'a = ResearchContext,
      of 0 "Some ''id''" "Some (PyInt 42)" None ResearchContext_class]
    contract_violation_raises [where ?'a = ResearchContext,
      of "- 2" "Some ''name''" "Some (PyInt 42)" None ResearchContext_class]
    contract_violation_raises [where ?'a = ResearchContext,
      of "- 1" None None None ResearchContext_class]
    contract_violation_raises [where ?'a = ResearchContext,
      of "- 2" "Some ''id''" None None ResearchContext_class]
    contract_violation_raises [where ?'a = ResearchContext,
      of "- 3" "Some ''id''" "Some (PyInt 42)" None ResearchContext_class]
  by (simp add: str_lower_name)

text \<open>
  C10. With error code \<open>-1\<close> the factory returns the error DTO exactly when the lower-cased
  attribute is \<open>id\<close> or \<open>sid\<close>, and raises \<open>ValueError\<close> for every other attribute; the
  message holds the upper-cased attribute, which is \<open>ID\<close> or \<open>SID\<close> whatever the case of
  the argument. With any of the three error codes, the call ends in the \<open>ValueError\<close> for
  an invalid attribute exactly when the lower-cased attribute is neither \<open>id\<close> nor \<open>sid\<close>.
\<close>

theorem attribute_case_insensitive_and_uppercased:
  "(generate_error_dto_and_message entity (- 1) (Some a) av md :: exn + 'a BaseDTO) =
     (if str_lower a \<in> {''id'', ''sid''}
      then Inr \<lparr>status = False, errorCode = Some (- 1),
                errorMessage = Some (dunder_class_name entity @ '' '' @ str_upper a @ '' cannot be None''),
                errorName = Some (dunder_class_name entity @ '' '' @ str_upper a @ '' not provided''),
                errorType = Some (dunder_class_name entity @ str_capitalize (str_upper a) @ ''NotProvided''),
                data = None\<rparr>
      else Inl (ValueError (''Attribute '' @ a @ '' is not valid'')))
   \<and> (str_lower a = ''id'' \<longrightarrow> str_upper a = ''ID'')
   \<and> (str_lower a = ''sid'' \<longrightarrow> str_upper a = ''SID'')
   \<and> (error_code \<in> {- 1, - 2, - 3} \<longrightarrow>
        (((generate_error_dto_and_message entity error_code (Some a) av md :: exn + 'a BaseDTO)
            = Inl (ValueError (''Attribute '' @ a @ '' is not valid'')))
         \<longleftrightarrow> str_lower a \<notin> {''id'', ''sid''}))"
  using factory_missing_attribute [of entity a av md] str_lower_id_upper [of a]
    str_lower_sid_upper [of a] factory_rejects_iff [of error_code entity a av md]
  by blast

lemma str_lower_Id: "str_lower ''Id'' = ''id''"
  by code_simp

lemma str_upper_Id: "str_upper ''Id'' = ''ID''"
  by code_simp

lemma upper_char_I: "upper_char CHR ''I'' = CHR ''I''"
  by code_simp

lemma str_lower_D: "str_lower ''D'' = ''d''"
  by code_simp

theorem attribute_case_insensitive_and_uppercased_witness:
  "str_lower ''Id'' = ''id'' \<and> str_upper ''Id'' = ''ID'' \<and> (- 1 :: int) \<in> {- 1, - 2, - 3}
   \<and> (generate_error_dto_and_message MessageResponse_class (- 1) (Some ''Id'') None None
         :: exn + ListMessageSourcesDTO) =
       Inr \<lparr>status = False, errorCode = Some (- 1),
            errorMessage = Some ''ModelMetaclass ID cannot be None'',
            errorName = Some ''ModelMetaclass ID not provided'',
            errorType = Some ''ModelMetaclassIdNotProvided'',
            data = None\<rparr>
   \<and> (generate_error_dto_and_message MessageResponse_class (- 1) (Some ''Id'') None None
         :: exn + ListMessageSourcesDTO) \<noteq> Inl (ValueError ''Attribute Id is not valid'')
   \<and> str_lower ''name'' \<notin> {''id'', ''sid''}
   \<and> (generate_error_dto_and_message MessageResponse_class (- 1) (Some ''name'') None None
         :: exn + ListMessageSourcesDTO) = Inl (ValueError ''Attribute name is not valid'')"
  using
    attribute_case_insensitive_and_uppercased [where ?'a = "SourceData list",
      of MessageResponse_class "''Id''" None None "- 1"]
    attribute_case_insensitive_and_uppercased [where ?'a = "SourceData list",
      of MessageResponse_class "''name''" None None "- 1"]
  by (simp add: str_lower_Id str_upper_Id upper_char_I str_lower_D str_lower_name
        MessageResponse_class_def pydantic_model_class_def)

section \<open>The repositories\<close>

lemma str_int_999: "str_int 999 = ''999''"
  by code_simp

text \<open>
  C1. \<open>get_research_context(999)\<close> on a store without rows returns an error DTO with
  \<open>status\<close> false whose error code is \<open>-1\<close> and whose error name is
  \<open>ResearchContextNotFound\<close>; the code is not \<open>-2\<close>.
\<close>

theorem get_research_context_absent_row:
  "get_research_context empty_session convert 999 =
     \<lparr>status = False, errorCode = Some (- 1),
      errorMessage = Some ''Research context 999 not found.'',
      errorName = Some ''ResearchContextNotFound'',
      errorType = Some ''ResearchContextNotFound'',
      data = None\<rparr>"
  by (simp add: get_research_context_def session_get_research_context_def empty_session_def
        str_int_999)

text \<open>Whatever the store and the id, an absent row gives error code \<open>-1\<close>.\<close>

lemma get_research_context_absent_code:
  "session_get_research_context s i = None \<Longrightarrow>
     errorCode (get_research_context s convert i) = Some (- 1)
     \<and> \<not> status (get_research_context s convert i)"
  by (simp add: get_research_context_def)

text \<open>The call \<open>SourceData(...)\<close> of \<open>list_message_sources\<close> raises for every row.\<close>

lemma source_core_raises:
  "SourceData_init (source_core_kwargs r) = Inl (ValidationError [''status''])"
  by (simp add: SourceData_init_def source_core_kwargs_def missing_fields_def)

lemma resolve_citations_present:
  "query_source_data s (source_data_id c) = Some r \<Longrightarrow>
     resolve_citations s (c # rest) acc = Inl (ValidationError [''status''])"
  by (simp add: source_core_raises)

lemma query_example_7: "query_source_data example_session 7 = Some example_source_row"
  by (simp add: query_source_data_def example_session_def example_source_row_def)

lemma query_example_8: "query_source_data example_session 8 = None"
  by (simp add: query_source_data_def example_session_def example_source_row_def)

text \<open>
  C2. Message 1 of the example store exists and its one citation refers to source data 7,
  which is stored. \<open>list_message_sources\<close> does not return a success DTO: constructing the
  \<open>SourceData\<close> entity without \<open>status\<close> raises \<open>ValidationError\<close>.
\<close>

theorem list_message_sources_resolved_citation_raises:
  "list_message_sources example_session (Some 1) = Inl (ValidationError [''status''])"
  by (simp add: list_message_sources_def query_message_response_def example_session_def
        query_example_7 [unfolded example_session_def] source_core_raises)

text \<open>
  C7. Message 2 of the example store exists; its first citation refers to source data 7,
  which is stored, its second to source data 8, which is not. \<open>list_message_sources\<close> does
  not return the error DTO for the absent source data: the first citation already raises
  \<open>ValidationError\<close>.
\<close>

theorem list_message_sources_absent_after_present_raises:
  "list_message_sources example_session (Some 2) = Inl (ValidationError [''status''])"
  by (simp add: list_message_sources_def query_message_response_def example_session_def
        query_example_7 [unfolded example_session_def] source_core_raises)

text \<open>
  When the absent source data is that of the first citation, the error DTO with code \<open>-2\<close>
  is returned; its texts start with \<open>ModelMetaclass\<close>.
\<close>

lemma str_lower_ID: "str_lower ''ID'' = ''id''"
  by code_simp

lemma str_upper_ID: "str_upper ''ID'' = ''ID''"
  by code_simp

lemma resolve_citations_first_absent:
  "query_source_data s (source_data_id c) = None \<Longrightarrow>
     resolve_citations s (c # rest) acc =
       Inr \<lparr>status = False, errorCode = Some (- 2),
            errorMessage = Some (''ModelMetaclass with ID '' @ str_int (source_data_id c)
                                 @ '' not found in the database''),
            errorName = Some ''ModelMetaclass not found'',
            errorType = Some ''ModelMetaclassNotFound'',
            data = None\<rparr>"
  by (simp add: factory_not_found str_lower_ID str_upper_ID SourceData_class_def
        pydantic_model_class_def)

text \<open>A success DTO is returned only for a message without citations, with an empty list.\<close>

lemma resolve_citations_success:
  "resolve_citations s cs acc = Inr dto \<Longrightarrow> status dto \<Longrightarrow> cs = [] \<and> data dto = Some acc"
proof (cases cs)
  case Nil
  then show "resolve_citations s cs acc = Inr dto \<Longrightarrow> status dto \<Longrightarrow> cs = [] \<and> data dto = Some acc"
    by auto
next
  case (Cons c rest)
  assume r: "resolve_citations s cs acc = Inr dto" and st: "status dto"
  show "cs = [] \<and> data dto = Some acc"
  proof (cases "query_source_data s (source_data_id c)")
    case None
    from resolve_citations_first_absent [OF None, of rest acc] r st Cons show ?thesis
      by auto
  next
    case (Some row)
    with r Cons show ?thesis
      by (simp add: source_core_raises)
  qed
qed

section \<open>The validator of \<open>relative_path\<close>\<close>

lemma str_split_not_Nil: "str_split sep v \<noteq> []"
  by (induction v) (auto split: list.splits)

lemma str_split_single: "str_split sep v = [p] \<Longrightarrow> p = v"
proof (induction v arbitrary: p)
  case Nil
  then show ?case by simp
next
  case (Cons c cs)
  then show ?case
    by (auto simp add: str_split_not_Nil split: if_splits list.splits)
qed

lemma last_str_split_suffix: "suffix (last (str_split sep v)) v"
proof (induction v)
  case Nil
  then show ?case by simp
next
  case (Cons c cs)
  show ?case
  proof (cases "c = sep")
    case True
    with Cons show ?thesis
      by (simp add: str_split_not_Nil suffix_Cons)
  next
    case False
    obtain piece pieces where sp: "str_split sep cs = piece # pieces"
      using str_split_not_Nil [of sep cs] by (cases "str_split sep cs") auto
    show ?thesis
    proof (cases pieces)
      case Nil
      with sp have "piece = cs" by (simp add: str_split_single)
      with False sp Nil show ?thesis by simp
    next
      case (Cons q qs)
      with False sp Cons.IH show ?thesis
        by (simp add: suffix_Cons)
    qed
  qed
qed

lemma hd_str_split_prefix: "prefix (hd (str_split sep v)) v"
  by (induction v) (auto split: list.splits)

lemma hex_char_range:
  "d < 16 \<Longrightarrow> is_digit_char (hex_char d) \<or> (97 \<le> (of_char (hex_char d) :: nat) \<and> (of_char (hex_char d) :: nat) \<le> 102)"
  by (auto simp add: hex_char_def is_digit_char_def)

lemma hex_digits_hex: "c \<in> set (hex_digits k n) \<Longrightarrow> is_hex_char c"
proof (induction k arbitrary: n)
  case 0
  then show ?case by simp
next
  case (Suc k)
  have "is_hex_char (hex_char (n mod 16))"
    using hex_char_range [of "n mod 16"] by (simp add: is_hex_char_def)
  with Suc show ?case by auto
qed

lemma uuid_str_chars:
  "set (take 8 h @ ''-'' @ take 4 (drop 8 h) @ ''-'' @ take 4 (drop 12 h) @ ''-''
         @ take 4 (drop 16 h) @ ''-'' @ drop 20 h) \<subseteq> insert CHR ''-'' (set h)"
proof -
  have t: "set (take n xs) \<subseteq> set xs" for n and xs :: string
    by (rule set_take_subset)
  have d: "set (drop n xs) \<subseteq> set xs" for n and xs :: string
    by (rule set_drop_subset)
  have td: "set (take m (drop n xs)) \<subseteq> set xs" for m n and xs :: string
    using t [of m "drop n xs"] d [of n xs] by (rule subset_trans)
  show ?thesis
    using t [of 8 h] td [of 4 8 h] td [of 4 12 h] td [of 4 16 h] d [of 20 h]
    by (simp only: set_append set_simps Un_subset_iff) blast
qed

lemma seed_hex:
  assumes "c \<in> set (str_remove CHR ''-'' (uuid_str u))"
  shows "is_hex_char c"
proof -
  from assms have "c \<in> set (uuid_str u)" and "c \<noteq> CHR ''-''"
    by (simp_all add: str_remove_def)
  moreover have "set (uuid_str u) \<subseteq> insert CHR ''-'' (set (hex_digits 32 (unat u)))"
    unfolding uuid_str_def Let_def by (rule uuid_str_chars)
  ultimately have "c \<in> set (hex_digits 32 (unat u))"
    by blast
  then show ?thesis by (rule hex_digits_hex)
qed

lemma length_hex_digits: "length (hex_digits k n) = k"
  by (induction k arbitrary: n) auto

lemma is_hex_allowed: "is_hex_char c \<Longrightarrow> allowed_char c"
  by (auto simp add: is_hex_char_def allowed_char_def is_lower_char_def)

lemma marker_lower: "\<forall>c \<in> set marker. is_lower_char c"
  by (simp add: marker_def is_lower_char_def)

lemma marker_allowed: "c \<in> set marker \<Longrightarrow> allowed_char c"
  using marker_lower by (simp add: allowed_char_def)

lemma s_not_hex: "\<not> is_hex_char CHR ''s''"
  by (simp add: is_hex_char_def is_digit_char_def)

lemma marker_not_in_seed: "\<not> sublist marker (str_remove CHR ''-'' (uuid_str u))"
proof
  assume "sublist marker (str_remove CHR ''-'' (uuid_str u))"
  then have "set marker \<subseteq> set (str_remove CHR ''-'' (uuid_str u))"
    by (rule set_mono_sublist)
  moreover have "CHR ''s'' \<in> set marker"
    by (simp add: marker_def)
  ultimately have "CHR ''s'' \<in> set (str_remove CHR ''-'' (uuid_str u))"
    by blast
  then show False using seed_hex s_not_hex by blast
qed

lemma occurrences_zero_iff:
  "sub \<noteq> [] \<Longrightarrow> occurrences sub s = 0 \<longleftrightarrow> \<not> sublist sub s"
  by (induction s) (auto simp add: sublist_Cons_right)

lemma prefix_across_separator:
  assumes "sep \<notin> set sub"
  shows "prefix sub (xs @ sep # ys) \<longleftrightarrow> prefix sub xs"
proof
  assume "prefix sub xs"
  then show "prefix sub (xs @ sep # ys)" by (rule prefix_prefix)
next
  assume "prefix sub (xs @ sep # ys)"
  then consider "prefix sub xs" | us where "sub = xs @ us" "prefix us (sep # ys)"
    by (auto simp add: prefix_append)
  then show "prefix sub xs"
  proof cases
    case 1
    then show ?thesis .
  next
    case 2
    with assms have "us = []" by (cases us) auto
    with 2 show ?thesis by simp
  qed
qed

lemma occurrences_append_separator:
  assumes "sep \<notin> set sub" and "sub \<noteq> []"
  shows "occurrences sub (xs @ sep # ys) = occurrences sub xs + occurrences sub ys"
proof (induction xs)
  case Nil
  from assms have "\<not> prefix sub (sep # ys)"
    by (cases sub) auto
  with assms show ?case by simp
next
  case (Cons x xs)
  have "prefix sub ((x # xs) @ sep # ys) \<longleftrightarrow> prefix sub (x # xs)"
    using assms(1) by (rule prefix_across_separator)
  with Cons show ?case by simp
qed

lemma occurrences_marker_marker: "occurrences marker marker = 1"
  by (simp add: marker_def)

lemma marker_no_dash: "CHR ''-'' \<notin> set marker"
  by (simp add: marker_def)

lemma marker_no_dot: "CHR ''.'' \<notin> set marker"
  by (simp add: marker_def)

lemma marker_not_Nil: "marker \<noteq> []"
  by (simp add: marker_def)

lemma canon_unchanged:
  "sublist marker p \<Longrightarrow> relative_path_must_be_alphanumberic_underscores_backslashes u p = p"
  by (simp add: relative_path_must_be_alphanumberic_underscores_backslashes_def)

lemma canon_fresh:
  "\<not> sublist marker p \<Longrightarrow>
     relative_path_must_be_alphanumberic_underscores_backslashes u p =
       hd (str_split CHR ''.'' (re_sub_disallowed (basename p))) @ CHR ''-'' #
       (str_remove CHR ''-'' (uuid_str u) @ CHR ''-'' #
        (marker @ CHR ''.'' # last (str_split CHR ''.'' (re_sub_disallowed (basename p)))))"
  by (simp add: relative_path_must_be_alphanumberic_underscores_backslashes_def Let_def)

lemma canon_has_marker:
  "sublist marker (relative_path_must_be_alphanumberic_underscores_backslashes u p)"
proof (cases "sublist marker p")
  case True
  then show ?thesis by (simp add: canon_unchanged)
next
  case False
  have "sublist marker
      ((hd (str_split CHR ''.'' (re_sub_disallowed (basename p))) @ CHR ''-'' #
        str_remove CHR ''-'' (uuid_str u) @ ''-'')
       @ marker @ (CHR ''.'' # last (str_split CHR ''.'' (re_sub_disallowed (basename p)))))"
    by (rule sublist_appendI)
  with False show ?thesis by (simp add: canon_fresh)
qed

lemma name_chars: "set (hd (str_split CHR ''.'' (re_sub_disallowed v))) \<subseteq> Collect allowed_char"
proof -
  have "set (hd (str_split CHR ''.'' (re_sub_disallowed v))) \<subseteq> set (re_sub_disallowed v)"
    using hd_str_split_prefix by (rule set_mono_prefix)
  then show ?thesis by (auto simp add: re_sub_disallowed_def)
qed

lemma ext_chars: "set (last (str_split CHR ''.'' (re_sub_disallowed v))) \<subseteq> Collect allowed_char"
proof -
  have "set (last (str_split CHR ''.'' (re_sub_disallowed v))) \<subseteq> set (re_sub_disallowed v)"
    using last_str_split_suffix by (rule set_mono_suffix)
  then show ?thesis by (auto simp add: re_sub_disallowed_def)
qed

lemma canon_fresh_allowed:
  assumes "\<not> sublist marker p" and "c \<in> set (relative_path_must_be_alphanumberic_underscores_backslashes u p)"
  shows "allowed_char c"
proof -
  from assms have "c \<in> set (hd (str_split CHR ''.'' (re_sub_disallowed (basename p))))
      \<or> c = CHR ''-'' \<or> c \<in> set (str_remove CHR ''-'' (uuid_str u)) \<or> c \<in> set marker
      \<or> c = CHR ''.'' \<or> c \<in> set (last (str_split CHR ''.'' (re_sub_disallowed (basename p))))"
    by (auto simp add: canon_fresh)
  moreover have "allowed_char CHR ''-''" and "allowed_char CHR ''.''"
    by (simp_all add: allowed_char_def)
  ultimately show ?thesis
    using name_chars [of "basename p"] ext_chars [of "basename p"] seed_hex [of c u]
      is_hex_allowed [of c] marker_allowed [of c]
    by blast
qed

lemma canon_fresh_once:
  assumes "\<not> sublist marker p" and "\<not> sublist marker (re_sub_disallowed (basename p))"
  shows "occurrences marker (relative_path_must_be_alphanumberic_underscores_backslashes u p) = 1"
proof -
  let ?v = "re_sub_disallowed (basename p)"
  have "sublist (hd (str_split CHR ''.'' ?v)) ?v"
    using hd_str_split_prefix by (rule prefix_imp_sublist)
  with assms(2) have n: "\<not> sublist marker (hd (str_split CHR ''.'' ?v))"
    using sublist_order.order_trans by blast
  have "sublist (last (str_split CHR ''.'' ?v)) ?v"
    using last_str_split_suffix by (rule suffix_imp_sublist)
  with assms(2) have e: "\<not> sublist marker (last (str_split CHR ''.'' ?v))"
    using sublist_order.order_trans by blast
  from n e marker_not_in_seed [of u] show ?thesis
    by (simp add: canon_fresh [OF assms(1)] occurrences_append_separator marker_no_dash
        marker_no_dot marker_not_Nil occurrences_zero_iff [THEN iffD2] occurrences_marker_marker)
qed

lemma marker_in_dollar_path: "sublist marker ''sdamarker$''"
  by code_simp

lemma dollar_not_allowed: "\<not> allowed_char CHR ''$''"
  by code_simp

lemma no_marker_in_split_path: "\<not> sublist marker ''sda$marker''"
  by code_simp

lemma split_path_name: "hd (str_split CHR ''.'' (re_sub_disallowed (basename ''sda$marker''))) = marker"
  by code_simp

lemma split_path_ext: "last (str_split CHR ''.'' (re_sub_disallowed (basename ''sda$marker''))) = marker"
  by code_simp

text \<open>
  C5 does not hold for every path. A path that already holds the marker is returned as
  it is, whatever its characters: \<open>sdamarker$\<close> keeps its dollar sign. A path in which the marker appears only once the
  disallowed characters are deleted gets the marker three times: \<open>sda$marker\<close> becomes
  \<open>sdamarker-<seed>-sdamarker.sdamarker\<close>.
\<close>

theorem whitelist_and_single_marker_counterexample:
  "CHR ''$'' \<in> set (relative_path_must_be_alphanumberic_underscores_backslashes 0 ''sdamarker$'')
   \<and> \<not> allowed_char CHR ''$''
   \<and> occurrences marker (relative_path_must_be_alphanumberic_underscores_backslashes 0 ''sda$marker'') = 3"
proof -
  have "relative_path_must_be_alphanumberic_underscores_backslashes 0 ''sdamarker$'' = ''sdamarker$''"
    using marker_in_dollar_path by (rule canon_unchanged)
  moreover have "occurrences marker
      (relative_path_must_be_alphanumberic_underscores_backslashes 0 ''sda$marker'') = 3"
    using marker_not_in_seed [of 0]
    by (simp add: canon_fresh [OF no_marker_in_split_path] split_path_name split_path_ext
        occurrences_append_separator marker_no_dash marker_no_dot marker_not_Nil
        occurrences_zero_iff [THEN iffD2] occurrences_marker_marker)
  ultimately show ?thesis
    using dollar_not_allowed by simp
qed

text \<open>
  C5, for the paths that the validator rewrites. For a path \<open>p\<close> that does not hold the
  marker, every character of the validated path is in \<open>[a-zA-Z0-9_./-]\<close> and the marker
  occurs in it; it occurs exactly once when the base name of \<open>p\<close>, stripped of the
  disallowed characters, does not hold the marker either.
\<close>

theorem fresh_path_whitelist_and_marker:
  assumes "\<not> sublist marker p"
  shows "(\<forall>c \<in> set (relative_path_must_be_alphanumberic_underscores_backslashes u p). allowed_char c)
       \<and> sublist marker (relative_path_must_be_alphanumberic_underscores_backslashes u p)
       \<and> (\<not> sublist marker (re_sub_disallowed (basename p)) \<longrightarrow>
            occurrences marker (relative_path_must_be_alphanumberic_underscores_backslashes u p) = 1)"
  using assms canon_fresh_allowed [of p _ u] canon_has_marker [of u p] canon_fresh_once [of p u]
  by blast

lemma report_path_no_marker: "\<not> sublist marker ''/tmp/reports/final.report.pdf''"
  by code_simp

lemma report_path_clean_no_marker:
  "\<not> sublist marker (re_sub_disallowed (basename ''/tmp/reports/final.report.pdf''))"
  by code_simp

theorem fresh_path_whitelist_and_marker_witness:
  "\<not> sublist marker ''/tmp/reports/final.report.pdf''
   \<and> \<not> sublist marker (re_sub_disallowed (basename ''/tmp/reports/final.report.pdf''))
   \<and> list_all allowed_char (relative_path_must_be_alphanumberic_underscores_backslashes 0
                      ''/tmp/reports/final.report.pdf'')
   \<and> sublist marker (relative_path_must_be_alphanumberic_underscores_backslashes 0
                      ''/tmp/reports/final.report.pdf'')
   \<and> occurrences marker (relative_path_must_be_alphanumberic_underscores_backslashes 0
                      ''/tmp/reports/final.report.pdf'') = 1"
  using fresh_path_whitelist_and_marker [of "''/tmp/reports/final.report.pdf''" 0]
    report_path_no_marker report_path_clean_no_marker
  unfolding list_all_iff by blast

text \<open>
  C8. Validating a validated path changes nothing, whatever the random values of the two
  calls; a path that holds the marker is returned unchanged.
\<close>

theorem validator_idempotent:
  "relative_path_must_be_alphanumberic_underscores_backslashes u2
     (relative_path_must_be_alphanumberic_underscores_backslashes u1 p)
   = relative_path_must_be_alphanumberic_underscores_backslashes u1 p
   \<and> (sublist marker p \<longrightarrow>
        relative_path_must_be_alphanumberic_underscores_backslashes u1 p = p)"
  using canon_has_marker [of u1 p]
  by (simp add: canon_unchanged)

lemma marked_path_has_marker: "sublist marker ''already-x1y2z3-sdamarker.txt''"
  by code_simp

theorem validator_idempotent_witness:
  "sublist marker ''already-x1y2z3-sdamarker.txt''
   \<and> relative_path_must_be_alphanumberic_underscores_backslashes 0 ''already-x1y2z3-sdamarker.txt''
       = ''already-x1y2z3-sdamarker.txt''
   \<and> relative_path_must_be_alphanumberic_underscores_backslashes 1
        (relative_path_must_be_alphanumberic_underscores_backslashes 0 ''already-x1y2z3-sdamarker.txt'')
       = relative_path_must_be_alphanumberic_underscores_backslashes 0 ''already-x1y2z3-sdamarker.txt''"
  using validator_idempotent [of 1 0 "''already-x1y2z3-sdamarker.txt''"] marked_path_has_marker
  by blast

lemma report_name: "hd (str_split CHR ''.'' (re_sub_disallowed (basename ''/tmp/reports/final.report.pdf''))) = ''final''"
  by code_simp

lemma report_ext: "last (str_split CHR ''.'' (re_sub_disallowed (basename ''/tmp/reports/final.report.pdf''))) = ''pdf''"
  by code_simp

lemma str_remove_absent: "c \<notin> set s \<Longrightarrow> str_remove c s = s"
  by (auto simp add: str_remove_def filter_id_conv)

lemma dash_not_hex: "CHR ''-'' \<notin> set (hex_digits k n)"
proof
  assume "CHR ''-'' \<in> set (hex_digits k n)"
  then have "is_hex_char CHR ''-''" by (rule hex_digits_hex)
  then show False by (simp add: is_hex_char_def is_digit_char_def)
qed

lemma str_remove_uuid_str: "str_remove CHR ''-'' (uuid_str u) = hex_digits 32 (unat u)"
proof -
  let ?h = "hex_digits 32 (unat u)"
  have t: "str_remove CHR ''-'' (take n (drop m ?h)) = take n (drop m ?h)" for n m
    using dash_not_hex [of 32 "unat u"]
    by (intro str_remove_absent) (meson in_set_dropD in_set_takeD)
  have d: "str_remove CHR ''-'' (drop m ?h) = drop m ?h" for m
    using dash_not_hex [of 32 "unat u"]
    by (intro str_remove_absent) (meson in_set_dropD)
  have a: "str_remove c (xs @ ys) = str_remove c xs @ str_remove c ys" for c xs ys
    by (simp add: str_remove_def)
  have e: "str_remove CHR ''-'' (CHR ''-'' # xs) = str_remove CHR ''-'' xs" for xs
    by (simp add: str_remove_def)
  have "str_remove CHR ''-'' (uuid_str u) =
      take 8 (drop 0 ?h) @ take 4 (drop 8 ?h) @ take 4 (drop 12 ?h) @ take 4 (drop 16 ?h) @ drop 20 ?h"
    unfolding uuid_str_def Let_def
    by (simp only: a e t d append_Cons append_Nil drop_0) (simp add: t [of 8 0, simplified])
  also have "\<dots> = ?h"
  proof -
    have g: "take n (drop m xs) @ drop (n + m) xs = drop m xs" for n m and xs :: string
      by (simp flip: drop_drop)
    from g [of 4 16 ?h] have "take 4 (drop 16 ?h) @ drop 20 ?h = drop 16 ?h" by simp
    moreover from g [of 4 12 ?h] have "take 4 (drop 12 ?h) @ drop 16 ?h = drop 12 ?h" by simp
    moreover from g [of 4 8 ?h] have "take 4 (drop 8 ?h) @ drop 12 ?h = drop 8 ?h" by simp
    ultimately show ?thesis by simp
  qed
  finally show ?thesis .
qed

lemma length_seed: "length (str_remove CHR ''-'' (uuid_str u)) = 32"
  by (simp add: str_remove_uuid_str length_hex_digits)

text \<open>The path \<open>/tmp/reports/final.report.pdf\<close> becomes \<open>final-<32 hex digits>-sdamarker.pdf\<close>.\<close>

lemma scenario_report_path:
  "relative_path_must_be_alphanumberic_underscores_backslashes u ''/tmp/reports/final.report.pdf''
     = ''final-'' @ str_remove CHR ''-'' (uuid_str u) @ ''-sdamarker.pdf''"
  by (simp add: canon_fresh [OF report_path_no_marker] report_name report_ext marker_def)

section \<open>The JSON form of a logical file name\<close>

lemma hex_value_hex_char: "d < 16 \<Longrightarrow> hex_value (hex_char d) = Some d"
  by (auto simp add: hex_value_def hex_char_def is_digit_char_def)

lemma hex_value_zero: "hex_value CHR ''0'' = Some 0"
  by (simp add: hex_value_def is_digit_char_def)

lemma json_unescape_simps:
  "json_unescape dquote = Some dquote"
  "json_unescape backslash = Some backslash"
  "json_unescape CHR ''b'' = Some (CHR 0x08)"
  "json_unescape CHR ''f'' = Some (CHR 0x0C)"
  "json_unescape CHR ''n'' = Some (CHR 0x0A)"
  "json_unescape CHR ''r'' = Some (CHR 0x0D)"
  "json_unescape CHR ''t'' = Some (CHR 0x09)"
  by (simp_all add: json_unescape_def dquote_def backslash_def)

lemma control_char_code:
  "char_of (16 * ((of_char c :: nat) div 16) + (of_char c :: nat) mod 16) = c"
  by simp

lemma string_body_escape_char:
  "json_string_body (json_escape_char c @ t) = cons_text c (json_string_body t)"
proof -
  consider (q) "c = dquote" | (b) "c = backslash"
    | (s) "c \<noteq> dquote" "c \<noteq> backslash" "c \<in> {CHR 0x08, CHR 0x0C, CHR 0x0A, CHR 0x0D, CHR 0x09}"
    | (u) "c \<noteq> dquote" "c \<noteq> backslash" "c \<notin> {CHR 0x08, CHR 0x0C, CHR 0x0A, CHR 0x0D, CHR 0x09}"
          "(of_char c :: nat) < 32"
    | (p) "c \<noteq> dquote" "c \<noteq> backslash" "\<not> (of_char c :: nat) < 32"
    by blast
  then show ?thesis
  proof cases
    case q
    then show ?thesis
      by (simp add: json_escape_char_def json_unescape_simps) (simp add: dquote_def backslash_def)
  next
    case b
    then show ?thesis
      by (simp add: json_escape_char_def json_unescape_simps) (simp add: dquote_def backslash_def)
  next
    case s
    then show ?thesis
      by (auto simp add: json_escape_char_def json_unescape_simps)
         (simp_all add: dquote_def backslash_def)
  next
    case u
    have "(of_char c :: nat) div 16 < 16" and "(of_char c :: nat) mod 16 < 16"
      using u(4) by simp_all
    then have h: "hex_value (hex_char ((of_char c :: nat) div 16)) = Some ((of_char c :: nat) div 16)"
      "hex_value (hex_char ((of_char c :: nat) mod 16)) = Some ((of_char c :: nat) mod 16)"
      by (simp_all add: hex_value_hex_char)
    have e: "json_escape_char c = [backslash, CHR ''u'', CHR ''0'', CHR ''0'',
            hex_char ((of_char c :: nat) div 16), hex_char ((of_char c :: nat) mod 16)]"
      using u by (simp add: json_escape_char_def)
    have nq: "backslash \<noteq> dquote"
      by (simp add: dquote_def backslash_def)
    show ?thesis
      unfolding e using nq by (simp add: h hex_value_zero control_char_code)
  next
    case p
    then have "c \<notin> {CHR 0x08, CHR 0x0C, CHR 0x0A, CHR 0x0D, CHR 0x09}"
      by auto
    with p show ?thesis
      by (simp add: json_escape_char_def)
  qed
qed

lemma string_body_escape:
  "json_string_body (json_escape s @ dquote # rest) = Some (s, rest)"
proof (induction s)
  case Nil
  then show ?case by (simp add: json_escape_def)
next
  case (Cons c s)
  have "json_string_body (json_escape (c # s) @ dquote # rest)
      = json_string_body (json_escape_char c @ (json_escape s @ dquote # rest))"
    by (simp add: json_escape_def)
  also have "\<dots> = cons_text c (json_string_body (json_escape s @ dquote # rest))"
    by (rule string_body_escape_char)
  finally show ?case
    using Cons by (simp add: cons_text_def)
qed


lemma digit_char_digit: "d < 10 \<Longrightarrow> is_digit_char (digit_char d)"
  by (simp add: digit_char_def is_digit_char_def)

lemma digit_char_value: "d < 10 \<Longrightarrow> (of_char (digit_char d) :: nat) - 48 = d"
  by (simp add: digit_char_def)

lemma digit_char_0: "digit_char 0 = CHR ''0''"
  by code_simp

lemma digit_char_zero:
  assumes "d < 10"
  shows "digit_char d = CHR ''0'' \<longleftrightarrow> d = 0"
proof
  assume "digit_char d = CHR ''0''"
  then have "(of_char (digit_char d) :: nat) = of_char CHR ''0''"
    by simp
  with assms show "d = 0"
    by (simp add: digit_char_def)
next
  assume "d = 0"
  then show "digit_char d = CHR ''0''"
    by (simp add: digit_char_0)
qed

lemma str_nat_not_Nil: "str_nat n \<noteq> []"
  by (subst str_nat.simps) simp

lemma str_nat_digits: "list_all is_digit_char (str_nat n)"
proof (induction n rule: str_nat.induct)
  case (1 n)
  show ?case
  proof (cases "n < 10")
    case True
    then show ?thesis
      by (subst str_nat.simps) (simp add: digit_char_digit)
  next
    case False
    with 1 show ?thesis
      by (subst str_nat.simps) (simp add: digit_char_digit)
  qed
qed

lemma nat_of_digits_snoc:
  "nat_of_digits (ds @ [c]) = 10 * nat_of_digits ds + ((of_char c :: nat) - 48)"
  by (simp add: nat_of_digits_def)

lemma nat_of_digits_str_nat: "nat_of_digits (str_nat n) = n"
proof (induction n rule: str_nat.induct)
  case (1 n)
  show ?case
  proof (cases "n < 10")
    case True
    then show ?thesis
      by (subst str_nat.simps) (simp add: nat_of_digits_def digit_char_value)
  next
    case False
    with 1 show ?thesis
      by (subst str_nat.simps) (simp add: nat_of_digits_snoc digit_char_value)
  qed
qed

lemma str_nat_no_leading_zero: "0 < n \<Longrightarrow> take 1 (str_nat n) \<noteq> ''0''"
proof (induction n rule: str_nat.induct)
  case (1 n)
  show ?case
  proof (cases "n < 10")
    case True
    with 1(2) show ?thesis
      by (subst str_nat.simps) (simp add: digit_char_zero)
  next
    case False
    then have "0 < n div 10" by simp
    with 1(1) False have "take 1 (str_nat (n div 10)) \<noteq> ''0''" by simp
    moreover have "take 1 (str_nat (n div 10) @ [digit_char (n mod 10)]) = take 1 (str_nat (n div 10))"
      using str_nat_not_Nil [of "n div 10"] by (cases "str_nat (n div 10)") simp_all
    ultimately show ?thesis
      using False by (subst str_nat.simps) simp
  qed
qed

lemma str_nat_length_one: "n < 10 \<Longrightarrow> length (str_nat n) = 1"
  by (subst str_nat.simps) simp

lemma json_digits_str_nat:
  assumes "\<not> is_digit_char c" and "c \<noteq> CHR ''.''" and "c \<noteq> CHR ''e''" and "c \<noteq> CHR ''E''"
  shows "json_digits (str_nat n @ c # rest) = Some (n, c # rest)"
proof -
  have all: "\<forall>x \<in> set (str_nat n). is_digit_char x"
    using str_nat_digits [of n] by (simp add: list_all_iff)
  have t: "takeWhile is_digit_char (str_nat n @ c # rest) = str_nat n"
    using all assms(1) by (simp add: takeWhile_append2)
  have d: "dropWhile is_digit_char (str_nat n @ c # rest) = c # rest"
    using all assms(1) by (simp add: dropWhile_append2)
  have z: "\<not> (1 < length (str_nat n) \<and> take 1 (str_nat n) = ''0'')"
  proof (cases "n < 10")
    case True
    then show ?thesis by (simp add: str_nat_length_one)
  next
    case False
    then show ?thesis using str_nat_no_leading_zero [of n] by simp
  qed
  show ?thesis
    unfolding json_digits_def Let_def t d
    using z assms by (simp add: str_nat_not_Nil nat_of_digits_str_nat)
qed

lemma str_nat_first: "\<exists>d ds. str_nat n = d # ds \<and> is_digit_char d"
  using str_nat_digits [of n] str_nat_not_Nil [of n] by (cases "str_nat n") simp_all

lemma dash_no_digit: "\<not> is_digit_char CHR ''-''"
  by (simp add: is_digit_char_def)

lemma json_number_str_int:
  assumes "\<not> is_digit_char c" and "c \<noteq> CHR ''.''" and "c \<noteq> CHR ''e''" and "c \<noteq> CHR ''E''"
  shows "json_number (str_int i @ c # rest) = Some (i, c # rest)"
proof (cases "i < 0")
  case True
  then show ?thesis
    by (simp add: json_number_def str_int_def json_digits_str_nat [OF assms])
next
  case False
  obtain d ds where f: "str_nat (nat i) = d # ds" and "is_digit_char d"
    using str_nat_first by blast
  then have "d \<noteq> CHR ''-''"
    using dash_no_digit by auto
  moreover have "json_digits (d # ds @ c # rest) = Some (nat i, c # rest)"
    using json_digits_str_nat [OF assms, of "nat i" rest] by (simp add: f)
  ultimately show ?thesis
    using False by (simp add: json_number_def str_int_def f)
qed

lemma dquote_no_digit: "\<not> is_digit_char dquote"
  by (simp add: is_digit_char_def dquote_def)

lemma str_int_first:
  "\<exists>d ds. str_int i = d # ds \<and> (d = CHR ''-'' \<or> is_digit_char d)"
  using str_nat_first [of "nat i"] by (auto simp add: str_int_def)

lemma json_value_str_int:
  assumes "\<not> is_digit_char c" and "c \<noteq> CHR ''.''" and "c \<noteq> CHR ''e''" and "c \<noteq> CHR ''E''"
  shows "json_value (str_int i @ c # rest) = Some (JInt i, c # rest)"
proof -
  obtain d ds where f: "str_int i = d # ds" and d: "d = CHR ''-'' \<or> is_digit_char d"
    using str_int_first by blast
  from d have "d \<noteq> dquote"
    using dquote_no_digit by (auto simp add: dquote_def)
  moreover have "json_number (d # ds @ c # rest) = Some (i, c # rest)"
    using json_number_str_int [OF assms, of i rest] by (simp add: f)
  ultimately show ?thesis
    by (simp add: json_value_def f)
qed

lemma skip_ws_str_int: "skip_ws (str_int i @ t) = str_int i @ t"
proof -
  obtain d ds where f: "str_int i = d # ds" and d: "d = CHR ''-'' \<or> is_digit_char d"
    using str_int_first by blast
  from d have "\<not> is_json_ws d"
    by (auto simp add: is_json_ws_def is_digit_char_def)
  then show ?thesis
    by (simp add: skip_ws_def f)
qed

lemma json_value_string:
  "json_value (dquote # json_escape s @ dquote # rest) = Some (JString s, rest)"
  by (simp add: json_value_def string_body_escape)


lemma skip_ws_token:
  "skip_ws (dquote # t) = dquote # t"
  "skip_ws (CHR '':'' # t) = CHR '':'' # t"
  "skip_ws (CHR '','' # t) = CHR '','' # t"
  "skip_ws (CHR ''{'' # t) = CHR ''{'' # t"
  "skip_ws (CHR ''}'' # t) = CHR ''}'' # t"
  "skip_ws [] = []"
  by (simp_all add: skip_ws_def is_json_ws_def dquote_def)

lemma comma_ends_number:
  "\<not> is_digit_char CHR '',''" "CHR '','' \<noteq> CHR ''.''" "CHR '','' \<noteq> CHR ''e''"
  "CHR '','' \<noteq> CHR ''E''"
  by (simp_all add: is_digit_char_def)

lemma json_member_string:
  "json_member (dquote # json_escape k @ dquote # CHR '':'' # dquote # json_escape v @ dquote # rest)
     = Some ((k, JString v), rest)"
  by (simp add: json_member_def skip_ws_token string_body_escape json_value_string)

lemma json_member_int:
  "json_member (dquote # json_escape k @ dquote # CHR '':'' # str_int i @ CHR '','' # rest)
     = Some ((k, JInt i), CHR '','' # rest)"
  by (simp add: json_member_def skip_ws_token string_body_escape skip_ws_str_int
        json_value_str_int [OF comma_ends_number])

lemma model_dump_json_text: "model_dump_json x = CHR ''{'' # lfn_members_text x"
  by (simp add: model_dump_json_def json_string_def lfn_members_text_def)

lemma json_members_lfn:
  "json_members (Suc (Suc (Suc (Suc (Suc n))))) (lfn_members_text x) =
     Some ([(''protocol'', JString (ProtocolEnum_value (protocol x))),
            (''tracer_id'', JString (tracer_id x)),
            (''job_id'', JInt (job_id x)),
            (''source'', JString (KnowledgeSourceEnum_value (source x))),
            (''relative_path'', JString (relative_path x))], [])"
  unfolding lfn_members_text_def
  by (simp add: json_member_string json_member_int skip_ws_token)

lemma lfn_members_text_length: "5 \<le> length (lfn_members_text x)"
  by (simp add: lfn_members_text_def)

lemma lfn_members_text_first: "take 1 (skip_ws (lfn_members_text x)) \<noteq> ''}''"
  by (simp add: lfn_members_text_def skip_ws_token) (simp add: dquote_def)

lemma json_object_dump:
  "json_object (model_dump_json x) =
     Some [(''protocol'', JString (ProtocolEnum_value (protocol x))),
           (''tracer_id'', JString (tracer_id x)),
           (''job_id'', JInt (job_id x)),
           (''source'', JString (KnowledgeSourceEnum_value (source x))),
           (''relative_path'', JString (relative_path x))]"
proof -
  obtain n where "length (lfn_members_text x) = 5 + n"
    using lfn_members_text_length [of x] le_Suc_ex by blast
  then have n: "length (lfn_members_text x) = Suc (Suc (Suc (Suc (Suc n))))"
    by simp
  show ?thesis
    unfolding model_dump_json_text json_object_def
    by (simp add: skip_ws_token lfn_members_text_first n json_members_lfn
          del: json_members.simps One_nat_def)
qed

lemma ProtocolEnum_round_trip: "ProtocolEnum_of_value (ProtocolEnum_value p) = Some p"
  by (cases p) (simp_all add: ProtocolEnum_of_value_def)

lemma KnowledgeSourceEnum_round_trip:
  "KnowledgeSourceEnum_of_value (KnowledgeSourceEnum_value s) = Some s"
  by (cases s) (simp_all add: KnowledgeSourceEnum_of_value_def)

lemma model_validate_dump:
  "model_validate uuid4
     [(''protocol'', JString (ProtocolEnum_value p)),
      (''tracer_id'', JString t),
      (''job_id'', JInt j),
      (''source'', JString (KnowledgeSourceEnum_value s)),
      (''relative_path'', JString r)] = Inr (LFN_init uuid4 p t j s r)"
  by (simp add: model_validate_def json_field_def validate_protocol_def validate_str_def
        validate_int_def validate_source_def ProtocolEnum_round_trip
        KnowledgeSourceEnum_round_trip)

lemma from_json_to_json:
  "from_json uuid4 (to_json x) =
     Inr (LFN_init uuid4 (protocol x) (tracer_id x) (job_id x) (source x) (relative_path x))"
  by (simp add: from_json_def to_json_def model_validate_json_def json_object_dump
        model_validate_dump)

lemma LFN_init_marked:
  "sublist marker (relative_path x) \<Longrightarrow>
     LFN_init uuid4 (protocol x) (tracer_id x) (job_id x) (source x) (relative_path x) = (x :: LFN)"
  by (simp add: LFN_init_def relative_path_must_be_alphanumberic_underscores_backslashes_def)

lemma marker_in_example_path:
  "sublist marker ''report-00112233445566778899aabbccddeeff-sdamarker.pdf''"
  by code_simp

text \<open>
  C9. For an \<open>LFN\<close> whose \<open>relative_path\<close> holds the marker, \<open>from_json\<close> of its
  \<open>to_json\<close> text is the same value, field by field, whatever random value the reading
  call would draw; every value built by the constructor is such an \<open>LFN\<close>.
\<close>

theorem lfn_json_round_trip:
  "(sublist marker (relative_path x) \<longrightarrow> from_json uuid4 (to_json x) = Inr x)
   \<and> from_json uuid4 (to_json (LFN_init u p t j s r)) = Inr (LFN_init u p t j s r)"
proof -
  have "sublist marker (relative_path (LFN_init u p t j s r))"
    by (simp add: LFN_init_def canon_has_marker)
  then show ?thesis
    by (simp add: from_json_to_json LFN_init_marked)
qed

theorem lfn_json_round_trip_witness:
  "sublist marker (relative_path example_lfn)
   \<and> from_json 0 (to_json example_lfn) = Inr example_lfn"
proof -
  have m: "sublist marker (relative_path example_lfn)"
    using marker_in_example_path by (simp add: example_lfn_def)
  with lfn_json_round_trip [of example_lfn 0] show ?thesis
    by blast
qed

end
